theory Spec2Isabelle
  imports Main "HOL-Library.Signed_Division" "HOL-Library.Word"
begin

section \<open>simple_uart.c: data model\<close>

text \<open>
  The C \<open>int\<close> arguments and locals (\<open>bus\<close>, \<open>baudrate\<close>, \<open>bytes\<close>, \<open>timeout_ms\<close>,
  \<open>bytes_read\<close>, \<open>bytes_left\<close>, \<open>ret\<close>) are modelled as \<open>int\<close>. No arithmetic of the
  file can leave the 32-bit range on 32-bit inputs: \<open>timeout_ms/1000\<close> and
  \<open>(timeout_ms % 1000) * 1000\<close> are bounded by the argument and by \<open>999000\<close>, and
  \<open>bytes_read + ret\<close> never exceeds \<open>bytes\<close> because \<open>read\<close> returns at most the count
  it was asked for. The division and remainder are C's (truncating): \<open>sdiv\<close>, \<open>smod\<close>.
\<close>

type_synonym byte = "8 word"

definition MIN_BUS :: int where "MIN_BUS = 0"
definition MAX_BUS :: int where "MAX_BUS = 5"

definition paths :: "string list" where
  "paths = [''/dev/ttyO0'', ''/dev/ttyO1'', ''/dev/ttyO2'',
            ''/dev/ttyO3'', ''/dev/ttyO4'', ''/dev/ttyO5'']"

text \<open>
  Modelled from the spec: \<open>robotics_cape.h\<close>, which declares the flow state and
  \<open>get_state()\<close>, is not among the sources. The spec calls it the Cancellation Signal,
  "a running/exiting indicator"; the code only compares it with \<open>EXITING\<close>.
\<close>
datatype state_t = RUNNING | EXITING

text \<open>The values of \<open>errno\<close> that the system calls of this file can leave behind.\<close>
datatype errno = EINTR | EINVAL | EBADF | EIO | ENOMEM

text \<open>The speed constants of \<open>termios.h\<close> that the \<open>switch\<close> of \<open>initialize_uart\<close> selects.\<close>
datatype speed_t =
    B230400 | B115200 | B57600 | B38400 | B19200 | B9600 | B4800 | B2400 | B1800
  | B1200 | B600 | B300 | B200 | B150 | B134 | B110 | B75 | B50

datatype cflag = CS8 | CREAD | CLOCAL

record termios =
  c_iflag :: nat
  c_oflag :: nat
  c_cflag :: "cflag list"
  c_lflag :: nat
  c_cc_VTIME :: nat
  c_cc_VMIN :: nat
  c_ispeed :: "speed_t option"
  c_ospeed :: "speed_t option"

record timeval =
  tv_sec :: int
  tv_usec :: int

text \<open>
  The system calls issued on the serial devices, as they are logged in the trace.
  \<open>SysSelect d tv w\<close>: \<open>select\<close> on descriptor \<open>d\<close> was handed the timeout \<open>tv\<close> and
  waited \<open>w\<close> microseconds. \<open>SysRead d n r\<close>: \<open>read\<close> of up to \<open>n\<close> bytes returned \<open>r\<close>.
\<close>
datatype syscall =
    SysOpen string int
  | SysClose int
  | SysTcsetattr int termios
  | SysTcflush int
  | SysWrite int "byte list" int
  | SysSelect int timeval nat
  | SysRead int int int

text \<open>The diagnostics the file prints with \<open>printf\<close>, one constructor for each format string.\<close>
datatype message =
    MsgBusRange int int       \<comment> \<open>ERROR: uart bus must be between %d & %d\<close>
  | MsgInvalidSpeed           \<comment> \<open>ERROR: invalid speed. Please use a standard baudrate\<close>
  | MsgOpenFailed int         \<comment> \<open>error opening uart%d in /dev/\<close>
  | MsgOverlayHint            \<comment> \<open>device tree overlay probably isn't loaded\<close>
  | MsgBaudFailed int         \<comment> \<open>ERROR: cannot set uart%d baud rate\<close>
  | MsgAttrFailed int         \<comment> \<open>cannot set uart%d attributes\<close>
  | MsgNotInitYet int         \<comment> \<open>ERROR: uart%d not initialized yet\<close>
  | MsgMustInit int           \<comment> \<open>ERROR: uart%d must be initialized first\<close>
  | MsgByteCount              \<comment> \<open>ERROR: number of bytes to send must be >1\<close>
  | MsgSelectError "errno option"  \<comment> \<open>uart select() error: %s\<close>
  | MsgReadError int          \<comment> \<open>ERROR: uart read() returned %d\<close>

text \<open>
  The state the functions work on: the two global arrays of the file (\<open>initialized\<close> and
  \<open>fd\<close>, six cells each), the descriptors that are open because this file opened them and
  has not closed them, the system calls issued so far and the lines printed so far.
\<close>
record world =
  initialized :: "int list"
  fd :: "int list"
  open_fds :: "int set"
  trace :: "syscall list"
  console :: "message list"

text \<open>The arrays have their declared size.\<close>
definition wf_world :: "world \<Rightarrow> bool" where
  "wf_world s = (length (initialized s) = 6 \<and> length (fd s) = 6)"

text \<open>The state at process start: zero-initialised globals, nothing opened, nothing done.\<close>
definition world0 :: world where
  "world0 = \<lparr>initialized = [0, 0, 0, 0, 0, 0], fd = [0, 0, 0, 0, 0, 0],
             open_fds = {}, trace = [], console = []\<rparr>"

subsection \<open>The environment\<close>

text \<open>
  What the operating system and the rest of the process answer is not decided by this
  file, so it is a parameter: for every logical instant (the number of system calls
  issued so far) the answer each primitive would give if called then.
\<close>

text \<open>
  What \<open>select\<close> meets: the descriptor becomes readable after so many microseconds, a
  signal is delivered after so many microseconds, the call fails with an error, or
  nothing happens at all.
\<close>
datatype sel_event = Readable nat | Signal nat | Fail errno | Quiet

text \<open>What \<open>read\<close> meets: an error, or the bytes waiting in the driver's buffer.\<close>
datatype read_event = ReadErr errno | ReadData "byte list"

record env =
  get_state_at :: "nat \<Rightarrow> state_t"
  open_at :: "nat \<Rightarrow> int"
  cfsetispeed_at :: "nat \<Rightarrow> int"
  cfsetospeed_at :: "nat \<Rightarrow> int"
  tcsetattr_at :: "nat \<Rightarrow> int"
  tcflush_at :: "nat \<Rightarrow> int"
  write_at :: "nat \<Rightarrow> int"
  select_at :: "nat \<Rightarrow> sel_event"
  read_at :: "nat \<Rightarrow> read_event"

definition now :: "world \<Rightarrow> nat" where
  "now s = length (trace s)"

definition issue :: "syscall \<Rightarrow> world \<Rightarrow> world" where
  "issue c s = s\<lparr>trace := trace s @ [c]\<rparr>"

definition printf :: "message \<Rightarrow> world \<Rightarrow> world" where
  "printf m s = s\<lparr>console := console s @ [m]\<rparr>"

definition get_state :: "env \<Rightarrow> world \<Rightarrow> state_t" where
  "get_state E s = get_state_at E (now s)"

subsection \<open>The system calls\<close>

text \<open>\<open>open\<close> returns a negative value on failure, the new descriptor otherwise.\<close>
definition sys_open :: "env \<Rightarrow> world \<Rightarrow> string \<Rightarrow> int \<times> world" where
  "sys_open E s path =
     (let r = open_at E (now s)
      in (r, issue (SysOpen path r)
               (if 0 \<le> r then s\<lparr>open_fds := insert r (open_fds s)\<rparr> else s)))"

text \<open>\<open>close\<close>; the file never looks at its result.\<close>
definition sys_close :: "world \<Rightarrow> int \<Rightarrow> world" where
  "sys_close s d = issue (SysClose d) (s\<lparr>open_fds := open_fds s - {d}\<rparr>)"

definition cfsetispeed :: "env \<Rightarrow> world \<Rightarrow> termios \<Rightarrow> speed_t \<Rightarrow> int \<times> termios" where
  "cfsetispeed E s config speed = (cfsetispeed_at E (now s), config\<lparr>c_ispeed := Some speed\<rparr>)"

definition cfsetospeed :: "env \<Rightarrow> world \<Rightarrow> termios \<Rightarrow> speed_t \<Rightarrow> int \<times> termios" where
  "cfsetospeed E s config speed = (cfsetospeed_at E (now s), config\<lparr>c_ospeed := Some speed\<rparr>)"

definition sys_tcsetattr :: "env \<Rightarrow> world \<Rightarrow> int \<Rightarrow> termios \<Rightarrow> int \<times> world" where
  "sys_tcsetattr E s d config = (tcsetattr_at E (now s), issue (SysTcsetattr d config) s)"

definition sys_tcflush :: "env \<Rightarrow> world \<Rightarrow> int \<Rightarrow> int \<times> world" where
  "sys_tcflush E s d = (tcflush_at E (now s), issue (SysTcflush d) s)"

text \<open>
  \<open>write(d, data, count)\<close>: a negative answer is an error, otherwise the number of
  bytes accepted, which is never more than \<open>count\<close>.
\<close>
definition sys_write :: "env \<Rightarrow> world \<Rightarrow> int \<Rightarrow> byte list \<Rightarrow> int \<Rightarrow> int \<times> world" where
  "sys_write E s d data count =
     (let a = write_at E (now s);
          r = (if a < 0 then - 1 else min a count)
      in (r, issue (SysWrite d (take (nat count) data) r) s))"

section \<open>simple_uart.c: the functions\<close>

text \<open>The \<open>switch\<close> of \<open>initialize_uart\<close>; \<open>None\<close> is its \<open>default\<close> branch.\<close>
definition speed_of_baudrate :: "int \<Rightarrow> speed_t option" where
  "speed_of_baudrate baudrate =
     (if baudrate = 230400 then Some B230400
      else if baudrate = 115200 then Some B115200
      else if baudrate = 57600 then Some B57600
      else if baudrate = 38400 then Some B38400
      else if baudrate = 19200 then Some B19200
      else if baudrate = 9600 then Some B9600
      else if baudrate = 4800 then Some B4800
      else if baudrate = 2400 then Some B2400
      else if baudrate = 1800 then Some B1800
      else if baudrate = 1200 then Some B1200
      else if baudrate = 600 then Some B600
      else if baudrate = 300 then Some B300
      else if baudrate = 200 then Some B200
      else if baudrate = 150 then Some B150
      else if baudrate = 134 then Some B134
      else if baudrate = 110 then Some B110
      else if baudrate = 75 then Some B75
      else if baudrate = 50 then Some B50
      else None)"

definition close_uart :: "world \<Rightarrow> int \<Rightarrow> int \<times> world" where
  "close_uart s bus =
     (if bus < MIN_BUS \<or> bus > MAX_BUS then (- 1, printf (MsgBusRange MIN_BUS MAX_BUS) s)
      else if initialized s ! nat bus = 0 then (0, s)
      else let s1 = sys_close s (fd s ! nat bus)
           in (0, s1\<lparr>initialized := (initialized s1)[nat bus := 0]\<rparr>))"

definition get_uart_fd :: "world \<Rightarrow> int \<Rightarrow> int \<times> world" where
  "get_uart_fd s bus =
     (if bus < MIN_BUS \<or> bus > MAX_BUS then (- 1, printf (MsgBusRange MIN_BUS MAX_BUS) s)
      else if initialized s ! nat bus = 0 then (- 1, printf (MsgNotInitYet bus) s)
      else (fd s ! nat bus, s))"

definition flush_uart :: "env \<Rightarrow> world \<Rightarrow> int \<Rightarrow> int \<times> world" where
  "flush_uart E s bus =
     (if bus < MIN_BUS \<or> bus > MAX_BUS then (- 1, printf (MsgBusRange MIN_BUS MAX_BUS) s)
      else if initialized s ! nat bus = 0 then (- 1, printf (MsgMustInit bus) s)
      else sys_tcflush E s (fd s ! nat bus))"

text \<open>The configuration \<open>initialize_uart\<close> builds after the \<open>memset\<close>: raw 8N1.\<close>
definition config0 :: termios where
  "config0 = \<lparr>c_iflag = 0, c_oflag = 0, c_cflag = [CS8, CREAD, CLOCAL], c_lflag = 0,
              c_cc_VTIME = 0, c_cc_VMIN = 1, c_ispeed = None, c_ospeed = None\<rparr>"

definition initialize_uart :: "env \<Rightarrow> world \<Rightarrow> int \<Rightarrow> int \<Rightarrow> int \<times> world" where
  "initialize_uart E s bus baudrate =
     (if bus < MIN_BUS \<or> bus > MAX_BUS then (- 1, printf (MsgBusRange MIN_BUS MAX_BUS) s)
      else case speed_of_baudrate baudrate of
        None \<Rightarrow> (- 1, printf MsgInvalidSpeed s)
      | Some speed \<Rightarrow>
          (let s1 = snd (close_uart s bus);
               (r, s2) = sys_open E s1 (paths ! nat bus);
               s3 = s2\<lparr>fd := (fd s2)[nat bus := r]\<rparr>
           in if r < 0 then (- 1, printf MsgOverlayHint (printf (MsgOpenFailed bus) s3))
              else
                (let (ri, config1) = cfsetispeed E s3 config0 speed
                 in if ri < 0 then (- 1, printf (MsgBaudFailed bus) s3)
                    else
                      (let (ro, config2) = cfsetospeed E s3 config1 speed
                       in if ro < 0 then (- 1, printf (MsgBaudFailed bus) s3)
                          else
                            (let (rt, s4) = sys_tcsetattr E s3 (fd s3 ! nat bus) config2
                             in if rt < 0 then (- 1, printf (MsgAttrFailed bus) s4)
                                else
                                  (let s5 = s4\<lparr>initialized := (initialized s4)[nat bus := 1]\<rparr>;
                                       s6 = snd (flush_uart E s5 bus)
                                   in (0, s6)))))))"

definition uart_send_bytes :: "env \<Rightarrow> world \<Rightarrow> int \<Rightarrow> int \<Rightarrow> byte list \<Rightarrow> int \<times> world" where
  "uart_send_bytes E s bus bytes data =
     (if bus < MIN_BUS \<or> bus > MAX_BUS then (- 1, printf (MsgBusRange MIN_BUS MAX_BUS) s)
      else if bytes < 1 then (- 1, printf MsgByteCount s)
      else if initialized s ! nat bus = 0 then (- 1, printf (MsgMustInit bus) s)
      else sys_write E s (fd s ! nat bus) data bytes)"

definition uart_send_byte :: "env \<Rightarrow> world \<Rightarrow> int \<Rightarrow> byte \<Rightarrow> int \<times> world" where
  "uart_send_byte E s bus data =
     (if bus < MIN_BUS \<or> bus > MAX_BUS then (- 1, printf (MsgBusRange MIN_BUS MAX_BUS) s)
      else if initialized s ! nat bus = 0 then (- 1, printf (MsgMustInit bus) s)
      else sys_write E s (fd s ! nat bus) [data] 1)"

subsection \<open>Waiting and reading\<close>

text \<open>Lines 299 and 300 of the source: the timeout structure built from \<open>timeout_ms\<close>.\<close>
definition timeval_of_ms :: "int \<Rightarrow> timeval" where
  "timeval_of_ms timeout_ms =
     \<lparr>tv_sec = timeout_ms sdiv 1000, tv_usec = (timeout_ms smod 1000) * 1000\<rparr>"

text \<open>
  \<open>select\<close> as Linux implements it, which is what the comment above line 299 relies on:
  a timeout with a negative field is refused with \<open>EINVAL\<close>; otherwise the call waits
  at most the time the structure holds and writes the time not slept back into it.
\<close>
definition tv_valid :: "timeval \<Rightarrow> bool" where
  "tv_valid tv = (0 \<le> tv_sec tv \<and> 0 \<le> tv_usec tv)"

text \<open>The microseconds a timeout structure stands for (none when it is invalid).\<close>
definition budget :: "timeval \<Rightarrow> nat" where
  "budget tv = (if tv_valid tv then nat (tv_sec tv * 1000000 + tv_usec tv) else 0)"

definition timeval_of_us :: "nat \<Rightarrow> timeval" where
  "timeval_of_us u = \<lparr>tv_sec = int (u div 1000000), tv_usec = int (u mod 1000000)\<rparr>"

text \<open>
  The result is the return value, \<open>errno\<close> when the call failed, the timeout structure as
  the call leaves it, and the world.
\<close>
definition sys_select ::
  "env \<Rightarrow> world \<Rightarrow> int \<Rightarrow> timeval \<Rightarrow> int \<times> errno option \<times> timeval \<times> world" where
  "sys_select E s d tv =
     (if \<not> tv_valid tv then (- 1, Some EINVAL, tv, issue (SysSelect d tv 0) s)
      else
        (let T = budget tv
         in case select_at E (now s) of
              Fail e \<Rightarrow> (- 1, Some e, tv, issue (SysSelect d tv 0) s)
            | Signal w \<Rightarrow>
                if w \<le> T
                then (- 1, Some EINTR, timeval_of_us (T - w), issue (SysSelect d tv w) s)
                else (0, None, timeval_of_us 0, issue (SysSelect d tv T) s)
            | Readable w \<Rightarrow>
                if w \<le> T
                then (1, None, timeval_of_us (T - w), issue (SysSelect d tv w) s)
                else (0, None, timeval_of_us 0, issue (SysSelect d tv T) s)
            | Quiet \<Rightarrow> (0, None, timeval_of_us 0, issue (SysSelect d tv T) s)))"

text \<open>
  \<open>read(d, buf + off, count)\<close>: on success at most \<open>count\<close> of the waiting bytes are
  stored at offset \<open>off\<close> of the caller's buffer and their number is returned. The
  caller's buffer is assumed to reach to \<open>off + count\<close>, as C requires.
\<close>
definition sys_read ::
  "env \<Rightarrow> world \<Rightarrow> int \<Rightarrow> byte list \<Rightarrow> int \<Rightarrow> int \<Rightarrow> int \<times> byte list \<times> world" where
  "sys_read E s d b off count =
     (case read_at E (now s) of
        ReadErr e \<Rightarrow> (- 1, b, issue (SysRead d count (- 1)) s)
      | ReadData xs \<Rightarrow>
          (let got = take (nat count) xs;
               r = int (length got)
           in (r, take (nat off) b @ got @ drop (nat off + length got) b,
               issue (SysRead d count r) s)))"

text \<open>The locals of \<open>uart_read_bytes\<close> that live across loop iterations.\<close>
record locals =
  bytes_read :: int
  bytes_left :: int
  timeout :: timeval
  buf :: "byte list"

text \<open>
  One execution of the loop body (lines 306 to 338). \<open>Some r\<close> is a \<open>return r\<close> from
  inside the loop, \<open>None\<close> is reaching the end of the body.
\<close>
definition loop_body :: "env \<Rightarrow> int \<Rightarrow> world \<Rightarrow> locals \<Rightarrow> int option \<times> world \<times> locals" where
  "loop_body E bus s l =
     (case sys_select E s (fd s ! nat bus) (timeout l) of
        (ret, err, tv, s1) \<Rightarrow>
          (let l1 = l\<lparr>timeout := tv\<rparr>
           in if ret = - 1 then
                (if err \<noteq> Some EINTR
                 then (Some (- 1), printf (MsgSelectError err) s1, l1)
                 else (Some (bytes_read l1), s1, l1))
              else if ret = 0 then (Some (bytes_read l1), s1, l1)
              else
                (case sys_read E s1 (fd s1 ! nat bus) (buf l1) (bytes_read l1) (bytes_left l1) of
                   (ret', b, s2) \<Rightarrow>
                     if ret' < 0 then (Some (- 1), printf (MsgReadError ret') s2, l1\<lparr>buf := b\<rparr>)
                     else if ret' > 0 then
                       (None, s2, l1\<lparr>buf := b, bytes_read := bytes_read l1 + ret',
                                     bytes_left := bytes_left l1 - ret'\<rparr>)
                     else (None, s2, l1\<lparr>buf := b\<rparr>))))"

text \<open>
  The \<open>while\<close> loop of line 305. The loop has no bound of its own (a \<open>read\<close> that keeps
  returning 0 while the state stays \<open>RUNNING\<close> goes round forever), so the model
  carries the number of iterations it may still run; \<open>None\<close> as result means that this
  number was used up with the loop still running, and the world and locals returned with
  it are those of that moment.
\<close>
fun read_loop :: "env \<Rightarrow> nat \<Rightarrow> int \<Rightarrow> world \<Rightarrow> locals \<Rightarrow> int option \<times> world \<times> locals" where
  "read_loop E 0 bus s l =
     (if bytes_left l > 0 \<and> get_state E s \<noteq> EXITING then (None, s, l)
      else (Some (bytes_read l), s, l))"
| "read_loop E (Suc n) bus s l =
     (if bytes_left l > 0 \<and> get_state E s \<noteq> EXITING then
        (case loop_body E bus s l of
           (Some r, s', l') \<Rightarrow> (Some r, s', l')
         | (None, s', l') \<Rightarrow> read_loop E n bus s' l')
      else (Some (bytes_read l), s, l))"

text \<open>The locals as lines 292 to 300 set them up, before the loop.\<close>
definition entry_locals :: "int \<Rightarrow> byte list \<Rightarrow> int \<Rightarrow> locals" where
  "entry_locals bytes b timeout_ms =
     \<lparr>bytes_read = 0, bytes_left = bytes, timeout = timeval_of_ms timeout_ms, buf = b\<rparr>"

text \<open>
  \<open>uart_read_bytes\<close>; the result is the return value (if the call returns within the
  given number of iterations), the caller's buffer and the world.
\<close>
definition uart_read_bytes ::
  "env \<Rightarrow> nat \<Rightarrow> world \<Rightarrow> int \<Rightarrow> int \<Rightarrow> byte list \<Rightarrow> int \<Rightarrow> int option \<times> byte list \<times> world" where
  "uart_read_bytes E fuel s bus bytes b timeout_ms =
     (if bus < MIN_BUS \<or> bus > MAX_BUS
      then (Some (- 1), b, printf (MsgBusRange MIN_BUS MAX_BUS) s)
      else if bytes < 1 then (Some (- 1), b, printf MsgByteCount s)
      else if initialized s ! nat bus = 0 then (Some (- 1), b, printf (MsgMustInit bus) s)
      else
        (case read_loop E fuel bus s (entry_locals bytes b timeout_ms) of
           (r, s', l') \<Rightarrow> (r, buf l', s')))"

text \<open>
  The world and locals with which the loop test of line 305 is evaluated for the
  \<open>n\<close>-th time after the given ones, if the loop gets that far.
\<close>
fun loop_head :: "env \<Rightarrow> nat \<Rightarrow> int \<Rightarrow> world \<Rightarrow> locals \<Rightarrow> (world \<times> locals) option" where
  "loop_head E 0 bus s l = Some (s, l)"
| "loop_head E (Suc n) bus s l =
     (if bytes_left l > 0 \<and> get_state E s \<noteq> EXITING then
        (case loop_body E bus s l of
           (Some r, s', l') \<Rightarrow> None
         | (None, s', l') \<Rightarrow> loop_head E n bus s' l')
      else None)"

section \<open>Reading a trace\<close>

text \<open>The state of the registry and of the devices is the same; only lines were printed.\<close>
definition same_state :: "world \<Rightarrow> world \<Rightarrow> bool" where
  "same_state s s' =
     (initialized s' = initialized s \<and> fd s' = fd s \<and> open_fds s' = open_fds s \<and>
      trace s' = trace s)"

text \<open>The waits of a trace: for each \<open>select\<close>, the timeout it was given and the time it waited.\<close>
fun waits :: "syscall list \<Rightarrow> (timeval \<times> nat) list" where
  "waits [] = []"
| "waits (SysSelect d tv w # cs) = (tv, w) # waits cs"
| "waits (c # cs) = waits cs"

text \<open>The number of bytes the \<open>read\<close> calls of a trace delivered.\<close>
fun received :: "syscall list \<Rightarrow> int" where
  "received [] = 0"
| "received (SysRead d n r # cs) = (if 0 < r then r else 0) + received cs"
| "received (c # cs) = received cs"

text \<open>The system calls issued between two worlds.\<close>
definition since :: "world \<Rightarrow> world \<Rightarrow> syscall list" where
  "since s s' = drop (length (trace s)) (trace s')"

text \<open>
  A sequence of waits draws on one budget: the first wait is handed the given timeout
  and waits no longer than it allows, and every later one is handed what its
  predecessor left.
\<close>
fun depleting :: "timeval \<Rightarrow> (timeval \<times> nat) list \<Rightarrow> bool" where
  "depleting tv [] = True"
| "depleting tv ((tv', w) # ws) =
     (tv' = tv \<and> w \<le> budget tv \<and>
      (ws = [] \<or> depleting (timeval_of_us (budget tv - w)) ws))"

text \<open>An environment for examples: every call succeeds, \<open>open\<close> yields 3, nothing arrives.\<close>
definition env0 :: env where
  "env0 = \<lparr>get_state_at = (\<lambda>_. RUNNING), open_at = (\<lambda>_. 3), cfsetispeed_at = (\<lambda>_. 0),
           cfsetospeed_at = (\<lambda>_. 0), tcsetattr_at = (\<lambda>_. 0), tcflush_at = (\<lambda>_. 0),
           write_at = (\<lambda>_. 1), select_at = (\<lambda>_. Quiet), read_at = (\<lambda>_. ReadData [])\<rparr>"

text \<open>The \<open>case\<close> labels of the \<open>switch\<close> in \<open>initialize_uart\<close>: the accepted baud rates.\<close>
definition standard_baudrates :: "int list" where
  "standard_baudrates = [230400, 115200, 57600, 38400, 19200, 9600, 4800, 2400, 1800,
                         1200, 600, 300, 200, 150, 134, 110, 75, 50]"

text \<open>The world after bus 0 was opened at 9600 baud in that environment.\<close>
definition world1 :: world where
  "world1 = snd (initialize_uart env0 world0 0 9600)"

text \<open>
  An environment in which two waits of 400 ms each end with two bytes to read, after which
  \<open>select\<close> meets \<open>ev\<close> and the flow state is \<open>st\<close>.
\<close>
definition env2 :: "sel_event \<Rightarrow> state_t \<Rightarrow> env" where
  "env2 ev st =
     env0\<lparr>get_state_at := (\<lambda>n. if n < 7 then RUNNING else st),
          select_at := (\<lambda>n. if n < 7 then Readable 400000 else ev),
          read_at := (\<lambda>n. ReadData [7, 8])\<rparr>"

text \<open>
  A call \<open>uart_read_bytes(0, 5, buf, 1500)\<close> on \<open>world1\<close> in that environment: the world
  and the locals after the first and after the second execution of the loop body.
\<close>
definition world2 :: world where
  "world2 = issue (SysRead 3 5 2)
              (issue (SysSelect 3 \<lparr>tv_sec = 1, tv_usec = 500000\<rparr> 400000) world1)"

definition locals2 :: locals where
  "locals2 = \<lparr>bytes_read = 2, bytes_left = 3,
              timeout = \<lparr>tv_sec = 1, tv_usec = 100000\<rparr>, buf = [7, 8, 0, 0, 0]\<rparr>"

definition world3 :: world where
  "world3 = issue (SysRead 3 3 2)
              (issue (SysSelect 3 \<lparr>tv_sec = 1, tv_usec = 100000\<rparr> 400000) world2)"

definition locals3 :: locals where
  "locals3 = \<lparr>bytes_read = 4, bytes_left = 1,
              timeout = \<lparr>tv_sec = 0, tv_usec = 700000\<rparr>, buf = [7, 8, 7, 8, 0]\<rparr>"

text \<open>
  The handle of slot \<open>b\<close> is valid when it is a descriptor that is open; the invariant of
  the data model ties this to the slot's \<open>initialized\<close> flag.
\<close>
definition handle_valid :: "world \<Rightarrow> nat \<Rightarrow> bool" where
  "handle_valid s b = (fd s ! b \<in> open_fds s)"

definition slot_inv :: "world \<Rightarrow> nat \<Rightarrow> bool" where
  "slot_inv s b = (handle_valid s b = (initialized s ! b \<noteq> 0))"

text \<open>
  An environment in which \<open>open\<close> succeeds and \<open>tcsetattr\<close> fails, and the world a first
  \<open>initialize_uart(0, 9600)\<close> leaves in it.
\<close>
definition env_attr_fails :: env where
  "env_attr_fails = env0\<lparr>tcsetattr_at := (\<lambda>_. - 1)\<rparr>"

definition world_leak :: world where
  "world_leak = snd (initialize_uart env_attr_fails world0 0 9600)"

section \<open>Helper lemmas\<close>

lemma same_state_printf: "same_state s (printf m s)"
  by (simp add: same_state_def printf_def)

lemma speed_of_baudrate_None:
  "baudrate \<notin> set standard_baudrates \<Longrightarrow> speed_of_baudrate baudrate = None"
  by (simp add: standard_baudrates_def speed_of_baudrate_def)

lemma world1_eq:
  "world1 =
     \<lparr>initialized = [1, 0, 0, 0, 0, 0], fd = [3, 0, 0, 0, 0, 0], open_fds = {3},
      trace =
        [SysOpen ''/dev/ttyO0'' 3,
         SysTcsetattr 3
           \<lparr>c_iflag = 0, c_oflag = 0, c_cflag = [CS8, CREAD, CLOCAL], c_lflag = 0,
            c_cc_VTIME = 0, c_cc_VMIN = 1, c_ispeed = Some B9600, c_ospeed = Some B9600\<rparr>,
         SysTcflush 3],
      console = []\<rparr>"
  by (simp add: world1_def initialize_uart_def MIN_BUS_def MAX_BUS_def speed_of_baudrate_def
      close_uart_def world0_def sys_open_def env0_def now_def issue_def cfsetispeed_def
      cfsetospeed_def sys_tcsetattr_def flush_uart_def sys_tcflush_def config0_def paths_def)

lemma waits_append: "waits (xs @ ys) = waits xs @ waits ys"
  by (induction xs rule: waits.induct) simp_all

lemma received_append: "received (xs @ ys) = received xs + received ys"
  by (induction xs rule: received.induct) simp_all

lemma received_nonneg: "0 \<le> received xs"
  by (induction xs rule: received.induct) simp_all

lemma budget_timeval_of_us: "budget (timeval_of_us u) = u"
  by (simp add: budget_def timeval_of_us_def tv_valid_def nat_add_distrib nat_mult_distrib
      flip: of_nat_mult of_nat_add)

lemma budget_timeval_of_ms: "int (budget (timeval_of_ms ms)) = max 0 (ms * 1000)"
proof (cases "0 \<le> ms")
  case True
  then have "ms sdiv 1000 = ms div 1000" "ms smod 1000 = ms mod 1000"
    by (simp_all add: signed_divide_int_def signed_modulo_int_def sgn_if)
  moreover from True have "0 \<le> ms div 1000" "0 \<le> ms mod 1000" by simp_all
  moreover have "ms div 1000 * 1000000 + ms mod 1000 * 1000 = ms * 1000"
    using div_mult_mod_eq [of ms 1000] by presburger
  ultimately have "budget (timeval_of_ms ms) = nat (ms * 1000)"
    by (simp only: budget_def timeval_of_ms_def tv_valid_def timeval.simps) simp
  with True show ?thesis by simp
next
  case False
  define k where "k = - ms"
  with False have k: "0 < k" by simp
  from False have sd: "ms sdiv 1000 = - (k div 1000)" and sm: "ms smod 1000 = - (k mod 1000)"
    by (simp_all add: signed_divide_int_def signed_modulo_int_def sgn_if k_def)
  have "\<not> tv_valid (timeval_of_ms ms)"
  proof
    assume "tv_valid (timeval_of_ms ms)"
    then have "0 \<le> - (k div 1000)" and "0 \<le> - (k mod 1000)"
      by (simp_all add: timeval_of_ms_def tv_valid_def sd sm)
    moreover from k have "0 \<le> k div 1000" and "0 \<le> k mod 1000" by simp_all
    ultimately have "k div 1000 = 0" and "k mod 1000 = 0" by linarith+
    with div_mult_mod_eq [of k 1000] have "k = 0" by simp
    with k show False by simp
  qed
  moreover from False have "ms * 1000 \<le> 0" by simp
  ultimately show ?thesis
    by (simp add: budget_def)
qed

lemma depleting_sum: "depleting tv ws \<Longrightarrow> sum_list (map snd ws) \<le> budget tv"
proof (induction ws arbitrary: tv)
  case Nil
  then show ?case by simp
next
  case (Cons a ws)
  obtain tv' w where a: "a = (tv', w)" by (cases a)
  show ?case
  proof (cases "ws = []")
    case True
    with Cons.prems a show ?thesis by simp
  next
    case False
    with Cons.prems a have "depleting (timeval_of_us (budget tv - w)) ws" and "w \<le> budget tv"
      by simp_all
    with Cons.IH [of "timeval_of_us (budget tv - w)"] a show ?thesis
      by (simp add: budget_timeval_of_us)
  qed
qed

lemma sys_select_effect:
  assumes "sys_select E s d tv = (ret, err, tv', s')"
  shows "\<exists>w. s' = issue (SysSelect d tv w) s \<and> w \<le> budget tv \<and>
             (ret = - 1 \<or> ret = 0 \<or> ret = 1 \<and> tv' = timeval_of_us (budget tv - w))"
  using assms
  by (auto simp: sys_select_def Let_def split: if_splits sel_event.splits)

lemma sys_read_effect:
  assumes "sys_read E s d b off count = (r, b', s')"
  shows "s' = issue (SysRead d count r) s \<and> (r = - 1 \<or> 0 \<le> r)"
  using assms
  by (auto simp: sys_read_def Let_def split: read_event.splits)

lemma loop_body_None:
  assumes "loop_body E bus s l = (None, s', l')"
  shows "\<exists>w r. s' = issue (SysRead (fd s ! nat bus) (bytes_left l) r)
                       (issue (SysSelect (fd s ! nat bus) (timeout l) w) s) \<and>
               w \<le> budget (timeout l) \<and> 0 \<le> r \<and>
               timeout l' = timeval_of_us (budget (timeout l) - w) \<and>
               bytes_read l' = bytes_read l + r \<and> bytes_left l' = bytes_left l - r"
proof -
  obtain ret err tv s1 where sel: "sys_select E s (fd s ! nat bus) (timeout l) = (ret, err, tv, s1)"
    by (metis prod_cases4)
  obtain r b s2 where rd:
    "sys_read E s1 (fd s1 ! nat bus) (buf l) (bytes_read l) (bytes_left l) = (r, b, s2)"
    by (metis prod_cases3)
  from sys_select_effect [OF sel] obtain w where
    w: "s1 = issue (SysSelect (fd s ! nat bus) (timeout l) w) s" "w \<le> budget (timeout l)"
      "ret = - 1 \<or> ret = 0 \<or> ret = 1 \<and> tv = timeval_of_us (budget (timeout l) - w)"
    by blast
  from w(1) have fd1: "fd s1 = fd s" by (simp add: issue_def)
  from sys_read_effect [OF rd] have r: "s2 = issue (SysRead (fd s ! nat bus) (bytes_left l) r) s1"
    "r = - 1 \<or> 0 \<le> r" by (simp_all add: fd1)
  from assms sel rd w(3) r(2) have "ret = 1" "0 \<le> r" "s' = s2"
    "timeout l' = tv" "bytes_read l' = bytes_read l + r" "bytes_left l' = bytes_left l - r"
    by (auto simp: loop_body_def Let_def split: if_splits)
  with w r show ?thesis by auto
qed

lemma loop_body_Some:
  assumes "loop_body E bus s l = (Some r, s', l')"
  shows "\<exists>w ev. trace s' = trace s @ SysSelect (fd s ! nat bus) (timeout l) w # ev \<and>
               w \<le> budget (timeout l) \<and> waits ev = []"
proof -
  obtain ret err tv s1 where sel: "sys_select E s (fd s ! nat bus) (timeout l) = (ret, err, tv, s1)"
    by (metis prod_cases4)
  obtain r' b s2 where rd:
    "sys_read E s1 (fd s1 ! nat bus) (buf l) (bytes_read l) (bytes_left l) = (r', b, s2)"
    by (metis prod_cases3)
  from sys_select_effect [OF sel] obtain w where
    w: "s1 = issue (SysSelect (fd s ! nat bus) (timeout l) w) s" "w \<le> budget (timeout l)"
    by blast
  from sys_read_effect [OF rd] have r: "s2 = issue (SysRead (fd s1 ! nat bus) (bytes_left l) r') s1"
    by simp
  from assms sel rd have "trace s' = trace s1 \<or> trace s' = trace s2"
    by (auto simp: loop_body_def Let_def printf_def split: if_splits)
  then show ?thesis
  proof
    assume "trace s' = trace s1"
    with w have "trace s' = trace s @ SysSelect (fd s ! nat bus) (timeout l) w # []"
      by (simp add: issue_def)
    with w(2) show ?thesis by (metis waits.simps(1))
  next
    assume "trace s' = trace s2"
    with w r have "trace s' = trace s @ SysSelect (fd s ! nat bus) (timeout l) w #
        [SysRead (fd s1 ! nat bus) (bytes_left l) r']"
      by (simp add: issue_def)
    moreover have "waits [SysRead (fd s1 ! nat bus) (bytes_left l) r'] = []" by simp
    ultimately show ?thesis using w(2) by blast
  qed
qed

lemma read_loop_depleting:
  assumes "read_loop E fuel bus s l = (r, s', l')"
  shows "\<exists>ev. trace s' = trace s @ ev \<and> depleting (timeout l) (waits ev)"
  using assms
proof (induction fuel arbitrary: s l)
  case 0
  then have "s' = s" by (simp split: if_splits)
  then show ?case by simp
next
  case (Suc n)
  show ?case
  proof (cases "bytes_left l > 0 \<and> get_state E s \<noteq> EXITING")
    case False
    with Suc.prems have "s' = s" by (simp split: if_splits)
    then show ?thesis by simp
  next
    case True
    obtain q s1 l1 where body: "loop_body E bus s l = (q, s1, l1)"
      by (metis prod_cases3)
    show ?thesis
    proof (cases q)
      case (Some x)
      with True body Suc.prems have "s' = s1" by simp
      with loop_body_Some [of E bus s l x s1 l1] body Some obtain w ev where
        "trace s' = trace s @ SysSelect (fd s ! nat bus) (timeout l) w # ev"
        "w \<le> budget (timeout l)" "waits ev = []"
        by blast
      then have "depleting (timeout l) (waits (SysSelect (fd s ! nat bus) (timeout l) w # ev))"
        by simp
      with \<open>trace s' = trace s @ SysSelect (fd s ! nat bus) (timeout l) w # ev\<close>
      show ?thesis by blast
    next
      case None
      with True body Suc.prems have rec: "read_loop E n bus s1 l1 = (r, s', l')" by simp
      from loop_body_None [of E bus s l s1 l1] body None obtain w x where
        b: "s1 = issue (SysRead (fd s ! nat bus) (bytes_left l) x)
                       (issue (SysSelect (fd s ! nat bus) (timeout l) w) s)"
          "w \<le> budget (timeout l)" "timeout l1 = timeval_of_us (budget (timeout l) - w)"
        by blast
      from Suc.IH [OF rec] obtain ev where
        ev: "trace s' = trace s1 @ ev" "depleting (timeout l1) (waits ev)"
        by blast
      let ?ev = "SysSelect (fd s ! nat bus) (timeout l) w #
                 SysRead (fd s ! nat bus) (bytes_left l) x # ev"
      from b(1) ev(1) have "trace s' = trace s @ ?ev" by (simp add: issue_def)
      moreover from b(2,3) ev(2) have "depleting (timeout l) (waits ?ev)" by simp
      ultimately show ?thesis by blast
    qed
  qed
qed

lemma since_append: "trace s' = trace s @ ev \<Longrightarrow> since s s' = ev"
  by (simp add: since_def)

lemma loop_head_read_loop:
  "loop_head E n bus s l = Some (s', l') \<Longrightarrow>
   read_loop E (n + k) bus s l = read_loop E k bus s' l'"
proof (induction n arbitrary: s l)
  case 0
  then show ?case by simp
next
  case (Suc n)
  from Suc.prems have cond: "bytes_left l > 0 \<and> get_state E s \<noteq> EXITING"
    by (simp split: if_splits)
  obtain q s1 l1 where body: "loop_body E bus s l = (q, s1, l1)"
    by (metis prod_cases3)
  with Suc.prems cond have q: "q = None" and rest: "loop_head E n bus s1 l1 = Some (s', l')"
    by (simp_all split: option.splits)
  from cond body q have "read_loop E (Suc n + k) bus s l = read_loop E (n + k) bus s1 l1"
    by simp
  with Suc.IH [OF rest] show ?case by simp
qed

lemma loop_head_received:
  "loop_head E n bus s l = Some (s', l') \<Longrightarrow>
   \<exists>ev. trace s' = trace s @ ev \<and> bytes_read l' = bytes_read l + received ev \<and>
        fd s' = fd s"
proof (induction n arbitrary: s l)
  case 0
  then show ?case by simp
next
  case (Suc n)
  from Suc.prems have cond: "bytes_left l > 0 \<and> get_state E s \<noteq> EXITING"
    by (simp split: if_splits)
  obtain q s1 l1 where body: "loop_body E bus s l = (q, s1, l1)"
    by (metis prod_cases3)
  with Suc.prems cond have q: "q = None" and rest: "loop_head E n bus s1 l1 = Some (s', l')"
    by (simp_all split: option.splits)
  from loop_body_None [of E bus s l s1 l1] body q obtain w r where
    b: "s1 = issue (SysRead (fd s ! nat bus) (bytes_left l) r)
                   (issue (SysSelect (fd s ! nat bus) (timeout l) w) s)"
       "0 \<le> r" "bytes_read l1 = bytes_read l + r"
    by blast
  from Suc.IH [OF rest] obtain ev where
    ev: "trace s' = trace s1 @ ev" "bytes_read l' = bytes_read l1 + received ev" "fd s' = fd s1"
    by blast
  let ?ev = "SysSelect (fd s ! nat bus) (timeout l) w #
             SysRead (fd s ! nat bus) (bytes_left l) r # ev"
  from b(1) ev(1) have "trace s' = trace s @ ?ev" by (simp add: issue_def)
  moreover from b(2,3) ev(2) have "bytes_read l' = bytes_read l + received ?ev" by simp
  moreover from b(1) ev(3) have "fd s' = fd s" by (simp add: issue_def)
  ultimately show ?case by blast
qed

lemma loop_head_entry:
  assumes "loop_head E n bus s (entry_locals bytes b timeout_ms) = Some (s', l')"
  shows "bytes_read l' = received (since s s') \<and> 0 \<le> bytes_read l'"
proof -
  from loop_head_received [OF assms] obtain ev where
    "trace s' = trace s @ ev" "bytes_read l' = received ev"
    by (auto simp: entry_locals_def)
  then show ?thesis by (simp add: since_append received_nonneg)
qed

lemma uart_read_bytes_loop:
  assumes "MIN_BUS \<le> bus" and "bus \<le> MAX_BUS" and "initialized s ! nat bus \<noteq> 0"
    and "1 \<le> bytes"
  shows "uart_read_bytes E fuel s bus bytes b timeout_ms =
           (case read_loop E fuel bus s (entry_locals bytes b timeout_ms) of
              (r, s', l') \<Rightarrow> (r, buf l', s'))"
  using assms by (simp add: uart_read_bytes_def)

subsection \<open>The example run\<close>

lemmas eval_defs = loop_body_def sys_select_def sys_read_def entry_locals_def env2_def env0_def
  world1_eq world2_def world3_def locals2_def locals3_def
  now_def issue_def printf_def timeval_of_ms_def tv_valid_def budget_def timeval_of_us_def
  signed_divide_int_def signed_modulo_int_def get_state_def Let_def

lemma example_body1:
  "loop_body (env2 ev st) 0 world1 (entry_locals 5 [0, 0, 0, 0, 0] 1500) = (None, world2, locals2)"
  by (simp add: eval_defs)

lemma example_body2:
  "loop_body (env2 ev st) 0 world2 locals2 = (None, world3, locals3)"
  by (simp add: eval_defs)

lemma example_now: "now world1 = 3" "now world2 = 5" "now world3 = 7"
  by (simp_all add: now_def world1_eq world2_def world3_def issue_def)

lemma example_running:
  "get_state (env2 ev st) world1 = RUNNING" "get_state (env2 ev st) world2 = RUNNING"
  "get_state (env2 ev st) world3 = st"
  by (simp_all add: get_state_def example_now env2_def)

lemma example_head:
  "loop_head (env2 ev st) (Suc (Suc 0)) 0 world1 (entry_locals 5 [0, 0, 0, 0, 0] 1500) =
     Some (world3, locals3)"
proof -
  have "bytes_left (entry_locals 5 [0, 0, 0, 0, 0] 1500) > 0" "bytes_left locals2 > 0"
    by (simp_all add: entry_locals_def locals2_def)
  then show ?thesis
    by (simp add: example_body1 example_body2 example_running)
qed

lemma example_world1: "initialized world1 ! nat 0 = 1" "fd world1 ! nat 0 = 3"
  by (simp_all add: world1_eq)

lemma example_world3:
  "fd world3 ! nat 0 = 3" "since world1 world3 =
     [SysSelect 3 \<lparr>tv_sec = 1, tv_usec = 500000\<rparr> 400000, SysRead 3 5 2,
      SysSelect 3 \<lparr>tv_sec = 1, tv_usec = 100000\<rparr> 400000, SysRead 3 3 2]"
  by (simp_all add: world1_eq world2_def world3_def issue_def since_def)

lemma example_select:
  "sys_select (env2 Quiet st) world3 3 (timeout locals3) =
     (0, None, \<lparr>tv_sec = 0, tv_usec = 0\<rparr>,
      issue (SysSelect 3 \<lparr>tv_sec = 0, tv_usec = 700000\<rparr> 700000) world3)"
  "sys_select (env2 (Signal 100000) st) world3 3 (timeout locals3) =
     (- 1, Some EINTR, \<lparr>tv_sec = 0, tv_usec = 600000\<rparr>,
      issue (SysSelect 3 \<lparr>tv_sec = 0, tv_usec = 700000\<rparr> 100000) world3)"
  "sys_select (env2 (Fail EIO) st) world3 3 (timeout locals3) =
     (- 1, Some EIO, \<lparr>tv_sec = 0, tv_usec = 700000\<rparr>,
      issue (SysSelect 3 \<lparr>tv_sec = 0, tv_usec = 700000\<rparr> 0) world3)"
  by (simp_all add: sys_select_def example_now locals3_def env2_def tv_valid_def budget_def
      timeval_of_us_def)

lemma example_valid:
  "MIN_BUS \<le> 0" "0 \<le> MAX_BUS" "initialized world1 ! nat 0 \<noteq> 0" "(1::int) \<le> 5"
  "0 < bytes_left locals3"
  by (simp_all add: MIN_BUS_def MAX_BUS_def world1_eq locals3_def)

lemma example_received:
  "received (since world1 world3) = 4"
  "received (since world1 (issue (SysSelect 3 tv w) world3)) = 4"
  by (simp_all add: world1_eq world2_def world3_def issue_def since_def)

lemma example_run:
  "uart_read_bytes (env2 Quiet RUNNING) 9 world1 0 5 [0, 0, 0, 0, 0] 1500 =
     (Some 4, [7, 8, 7, 8, 0],
      issue (SysSelect 3 \<lparr>tv_sec = 0, tv_usec = 700000\<rparr> 700000) world3)"
proof -
  have run: "get_state (env2 Quiet RUNNING) world3 \<noteq> EXITING"
    by (simp add: example_running)
  have sel: "sys_select (env2 Quiet RUNNING) world3 (fd world3 ! nat 0) (timeout locals3) =
     (0, None, \<lparr>tv_sec = 0, tv_usec = 0\<rparr>,
      issue (SysSelect 3 \<lparr>tv_sec = 0, tv_usec = 700000\<rparr> 700000) world3)"
    by (simp only: example_world3(1) example_select(1))
  have body: "loop_body (env2 Quiet RUNNING) 0 world3 locals3 =
     (Some 4, issue (SysSelect 3 \<lparr>tv_sec = 0, tv_usec = 700000\<rparr> 700000) world3,
      locals3\<lparr>timeout := \<lparr>tv_sec = 0, tv_usec = 0\<rparr>\<rparr>)"
    using sel by (simp add: loop_body_def locals3_def)
  have "read_loop (env2 Quiet RUNNING) (Suc n) 0 world3 locals3 =
     (Some 4, issue (SysSelect 3 \<lparr>tv_sec = 0, tv_usec = 700000\<rparr> 700000) world3,
      locals3\<lparr>timeout := \<lparr>tv_sec = 0, tv_usec = 0\<rparr>\<rparr>)" for n
    using run example_valid(5) by (simp add: body)
  with loop_head_read_loop [OF example_head [of Quiet RUNNING], of "Suc 6"]
  have "read_loop (env2 Quiet RUNNING) (Suc (Suc 0) + Suc 6) 0 world1
          (entry_locals 5 [0, 0, 0, 0, 0] 1500) =
     (Some 4, issue (SysSelect 3 \<lparr>tv_sec = 0, tv_usec = 700000\<rparr> 700000) world3,
      locals3\<lparr>timeout := \<lparr>tv_sec = 0, tv_usec = 0\<rparr>\<rparr>)"
    by (simp only:)
  moreover have "Suc (Suc 0) + Suc 6 = 9" by simp
  ultimately have "read_loop (env2 Quiet RUNNING) 9 0 world1
          (entry_locals 5 [0, 0, 0, 0, 0] 1500) =
     (Some 4, issue (SysSelect 3 \<lparr>tv_sec = 0, tv_usec = 700000\<rparr> 700000) world3,
      locals3\<lparr>timeout := \<lparr>tv_sec = 0, tv_usec = 0\<rparr>\<rparr>)"
    by (simp only:)
  with example_valid(1-4) show ?thesis
    by (simp add: uart_read_bytes_loop locals3_def)
qed

section \<open>Validation\<close>

text \<open>
  C7. For a bus index outside \<open>MIN_BUS..MAX_BUS\<close> each of the seven functions returns
  \<open>-1\<close>; the only thing that happens is that the range diagnostic is printed: no system
  call is issued and the arrays and the open descriptors are as before.
\<close>
theorem bus_out_of_range_rejected:
  assumes "bus < MIN_BUS \<or> MAX_BUS < bus"
  shows "initialize_uart E s bus baudrate = (- 1, printf (MsgBusRange MIN_BUS MAX_BUS) s) \<and>
         close_uart s bus = (- 1, printf (MsgBusRange MIN_BUS MAX_BUS) s) \<and>
         get_uart_fd s bus = (- 1, printf (MsgBusRange MIN_BUS MAX_BUS) s) \<and>
         flush_uart E s bus = (- 1, printf (MsgBusRange MIN_BUS MAX_BUS) s) \<and>
         uart_send_bytes E s bus bytes data = (- 1, printf (MsgBusRange MIN_BUS MAX_BUS) s) \<and>
         uart_send_byte E s bus c = (- 1, printf (MsgBusRange MIN_BUS MAX_BUS) s) \<and>
         uart_read_bytes E fuel s bus bytes b timeout_ms =
           (Some (- 1), b, printf (MsgBusRange MIN_BUS MAX_BUS) s) \<and>
         same_state s (printf (MsgBusRange MIN_BUS MAX_BUS) s)"
  using assms
  by (auto simp: initialize_uart_def close_uart_def get_uart_fd_def flush_uart_def
      uart_send_bytes_def uart_send_byte_def uart_read_bytes_def same_state_printf)

theorem bus_out_of_range_rejected_witness:
  "(6 < MIN_BUS \<or> MAX_BUS < 6) \<and>
   fst (initialize_uart env0 world0 6 9600) = - 1 \<and>
   fst (close_uart world0 6) = - 1 \<and>
   fst (get_uart_fd world0 6) = - 1 \<and>
   fst (flush_uart env0 world0 6) = - 1 \<and>
   fst (uart_send_bytes env0 world0 6 1 [65]) = - 1 \<and>
   fst (uart_send_byte env0 world0 6 65) = - 1 \<and>
   fst (uart_read_bytes env0 3 world0 6 1 [0] 1000) = Some (- 1) \<and>
   trace (snd (initialize_uart env0 world0 6 9600)) = []"
  using bus_out_of_range_rejected [of 6 env0 world0 9600 1 "[65]" 65 3 "[0]" 1000]
  by (simp add: MIN_BUS_def MAX_BUS_def same_state_def world0_def)

text \<open>
  C6. For a baud rate that is not one of the accepted rates \<open>initialize_uart\<close> returns
  \<open>-1\<close> and only prints a diagnostic: the \<open>initialized\<close> flags, the handles and the open
  descriptors are as before and no system call is issued. With a bus index in range the
  diagnostic is the one for an invalid speed.
\<close>
theorem invalid_baudrate_rejected:
  assumes "baudrate \<notin> set standard_baudrates"
  shows "fst (initialize_uart E s bus baudrate) = - 1 \<and>
         same_state s (snd (initialize_uart E s bus baudrate)) \<and>
         (if MIN_BUS \<le> bus \<and> bus \<le> MAX_BUS
          then snd (initialize_uart E s bus baudrate) = printf MsgInvalidSpeed s
          else snd (initialize_uart E s bus baudrate) = printf (MsgBusRange MIN_BUS MAX_BUS) s)"
  using speed_of_baudrate_None [OF assms]
  by (simp add: initialize_uart_def same_state_printf)

theorem invalid_baudrate_rejected_witness:
  "9601 \<notin> set standard_baudrates \<and>
   initialize_uart env0 world1 0 9601 = (- 1, world1\<lparr>console := [MsgInvalidSpeed]\<rparr>)"
  using invalid_baudrate_rejected [of 9601 env0 world1 0]
  by (simp add: standard_baudrates_def MIN_BUS_def MAX_BUS_def printf_def world1_eq prod_eq_iff)

text \<open>
  C9. With a byte count below 1, \<open>uart_read_bytes\<close> and \<open>uart_send_bytes\<close> return \<open>-1\<close>
  before any system call: the buffer and the state are as before and only a diagnostic
  is printed, the one for the byte count when the bus index is in range.
\<close>
theorem zero_length_rejected:
  assumes "bytes < 1"
  shows "fst (uart_read_bytes E fuel s bus bytes b timeout_ms) = Some (- 1) \<and>
         fst (snd (uart_read_bytes E fuel s bus bytes b timeout_ms)) = b \<and>
         same_state s (snd (snd (uart_read_bytes E fuel s bus bytes b timeout_ms))) \<and>
         fst (uart_send_bytes E s bus bytes data) = - 1 \<and>
         same_state s (snd (uart_send_bytes E s bus bytes data)) \<and>
         (if MIN_BUS \<le> bus \<and> bus \<le> MAX_BUS
          then snd (snd (uart_read_bytes E fuel s bus bytes b timeout_ms)) =
                 printf MsgByteCount s \<and>
               snd (uart_send_bytes E s bus bytes data) = printf MsgByteCount s
          else snd (snd (uart_read_bytes E fuel s bus bytes b timeout_ms)) =
                 printf (MsgBusRange MIN_BUS MAX_BUS) s \<and>
               snd (uart_send_bytes E s bus bytes data) =
                 printf (MsgBusRange MIN_BUS MAX_BUS) s)"
  using assms
  by (simp add: uart_read_bytes_def uart_send_bytes_def same_state_printf)

theorem zero_length_rejected_witness:
  "(0::int) < 1 \<and>
   uart_read_bytes env0 3 world1 0 0 [] 1000 =
     (Some (- 1), [], world1\<lparr>console := [MsgByteCount]\<rparr>) \<and>
   uart_send_bytes env0 world1 0 0 [] = (- 1, world1\<lparr>console := [MsgByteCount]\<rparr>)"
  using zero_length_rejected [of 0 env0 3 world1 0 "[]" 1000 "[]"]
  by (simp add: MIN_BUS_def MAX_BUS_def printf_def world1_eq prod_eq_iff)

section \<open>Closing\<close>

text \<open>
  C8. For a bus index in range, \<open>close_uart\<close> on a bus that is not initialized returns 0
  and changes nothing; and a second \<open>close_uart\<close> right after a first returns 0 and
  leaves the state the first one produced.
\<close>
theorem close_uart_idempotent:
  assumes "wf_world s" and "MIN_BUS \<le> bus" and "bus \<le> MAX_BUS"
  shows "(initialized s ! nat bus = 0 \<longrightarrow> close_uart s bus = (0, s)) \<and>
         fst (close_uart s bus) = 0 \<and>
         close_uart (snd (close_uart s bus)) bus = (0, snd (close_uart s bus))"
proof -
  from assms have "nat bus < length (initialized s)"
    by (simp add: wf_world_def MIN_BUS_def MAX_BUS_def)
  with assms(2,3) show ?thesis
    by (simp add: close_uart_def Let_def sys_close_def issue_def)
qed

theorem close_uart_idempotent_witness:
  "wf_world world1 \<and> MIN_BUS \<le> 0 \<and> 0 \<le> MAX_BUS \<and> wf_world world0 \<and>
   initialized world0 ! nat 0 = 0 \<and>
   close_uart world0 0 = (0, world0) \<and>
   initialized world1 ! 0 = 1 \<and>
   initialized (snd (close_uart world1 0)) ! 0 = 0 \<and>
   open_fds (snd (close_uart world1 0)) = {} \<and>
   close_uart (snd (close_uart world1 0)) 0 = (0, snd (close_uart world1 0))"
  using close_uart_idempotent [of world1 0] close_uart_idempotent [of world0 0]
  by (simp add: wf_world_def world1_eq world0_def MIN_BUS_def MAX_BUS_def close_uart_def
      sys_close_def issue_def)

section \<open>Reading\<close>

text \<open>
  C10. On an initialized bus in range and with a byte count of at least 1, a call of
  \<open>uart_read_bytes\<close> that finds the flow state \<open>EXITING\<close> at entry returns 0 whatever the
  number of iterations allowed; the world is unchanged, so neither \<open>select\<close> nor \<open>read\<close>
  was called, and the buffer is as it was.
\<close>
theorem exiting_at_entry_returns_zero:
  assumes "MIN_BUS \<le> bus" and "bus \<le> MAX_BUS" and "initialized s ! nat bus \<noteq> 0"
    and "1 \<le> bytes" and "get_state E s = EXITING"
  shows "uart_read_bytes E fuel s bus bytes b timeout_ms = (Some 0, b, s)"
  using assms by (cases fuel) (simp_all add: uart_read_bytes_def entry_locals_def)

theorem exiting_at_entry_returns_zero_witness:
  "MIN_BUS \<le> 0 \<and> 0 \<le> MAX_BUS \<and> initialized world1 ! nat 0 \<noteq> 0 \<and> (1::int) \<le> 4 \<and>
   get_state (env0\<lparr>get_state_at := (\<lambda>_. EXITING)\<rparr>) world1 = EXITING \<and>
   uart_read_bytes (env0\<lparr>get_state_at := (\<lambda>_. EXITING)\<rparr>) 9 world1 0 4 [1, 2, 3, 4] 1000 =
     (Some 0, [1, 2, 3, 4], world1)"
  using exiting_at_entry_returns_zero
    [of 0 world1 4 "env0\<lparr>get_state_at := (\<lambda>_. EXITING)\<rparr>" 9 "[1, 2, 3, 4]" 1000]
  by (simp add: MIN_BUS_def MAX_BUS_def world1_eq get_state_def)

text \<open>
  C4. When the loop of a call reaches its test with bytes still missing and the flow
  state is \<open>EXITING\<close>, the call returns \<open>bytes_read\<close>, which is the number of bytes the
  \<open>read\<close> calls of this call delivered and is not negative; no further system call is
  issued.
\<close>
theorem exiting_returns_partial_count:
  assumes "MIN_BUS \<le> bus" and "bus \<le> MAX_BUS" and "initialized s ! nat bus \<noteq> 0"
    and "1 \<le> bytes"
    and "loop_head E n bus s (entry_locals bytes b timeout_ms) = Some (s', l')"
    and "0 < bytes_left l'" and "get_state E s' = EXITING"
  shows "uart_read_bytes E (n + k) s bus bytes b timeout_ms = (Some (bytes_read l'), buf l', s') \<and>
         bytes_read l' = received (since s s') \<and> 0 \<le> bytes_read l'"
proof -
  from assms(7) have "read_loop E k bus s' l' = (Some (bytes_read l'), s', l')"
    by (cases k) simp_all
  with loop_head_read_loop [OF assms(5), of k]
  have "read_loop E (n + k) bus s (entry_locals bytes b timeout_ms) = (Some (bytes_read l'), s', l')"
    by simp
  with assms(1-4) loop_head_entry [OF assms(5)] show ?thesis
    by (simp add: uart_read_bytes_loop)
qed

theorem exiting_returns_partial_count_witness:
  "MIN_BUS \<le> 0 \<and> 0 \<le> MAX_BUS \<and> initialized world1 ! nat 0 \<noteq> 0 \<and> (1::int) \<le> 5 \<and>
   loop_head (env2 Quiet EXITING) (Suc (Suc 0)) 0 world1 (entry_locals 5 [0, 0, 0, 0, 0] 1500) =
     Some (world3, locals3) \<and>
   0 < bytes_left locals3 \<and> get_state (env2 Quiet EXITING) world3 = EXITING \<and>
   uart_read_bytes (env2 Quiet EXITING) (Suc (Suc 0) + 3) world1 0 5 [0, 0, 0, 0, 0] 1500 =
     (Some 4, [7, 8, 7, 8, 0], world3) \<and>
   received (since world1 world3) = 4"
proof -
  note h = example_valid(1-4) example_head [of Quiet EXITING] example_valid(5)
    example_running(3) [of Quiet EXITING]
  from exiting_returns_partial_count [OF h, of 3]
  have "uart_read_bytes (env2 Quiet EXITING) (Suc (Suc 0) + 3) world1 0 5 [0, 0, 0, 0, 0] 1500 =
     (Some 4, [7, 8, 7, 8, 0], world3)"
    by (simp add: locals3_def)
  with h example_received(1) show ?thesis by blast
qed

text \<open>
  C3. When the loop is entered and \<open>select\<close> returns 0 (the wait timed out), the call
  returns \<open>bytes_read\<close>, the number of bytes the \<open>read\<close> calls of this call delivered: 0
  when nothing was read, the partial count otherwise, never a negative value.
\<close>
theorem wait_timeout_returns_count:
  assumes "MIN_BUS \<le> bus" and "bus \<le> MAX_BUS" and "initialized s ! nat bus \<noteq> 0"
    and "1 \<le> bytes"
    and "loop_head E n bus s (entry_locals bytes b timeout_ms) = Some (s', l')"
    and "0 < bytes_left l'" and "get_state E s' \<noteq> EXITING"
    and "sys_select E s' (fd s' ! nat bus) (timeout l') = (0, err, tv, s'')"
  shows "uart_read_bytes E (Suc (n + k)) s bus bytes b timeout_ms =
           (Some (bytes_read l'), buf l', s'') \<and>
         bytes_read l' = received (since s s'') \<and> 0 \<le> bytes_read l'"
proof -
  from assms(8) have body: "loop_body E bus s' l' = (Some (bytes_read l'), s'', l'\<lparr>timeout := tv\<rparr>)"
    by (simp add: loop_body_def)
  with assms(6,7) have "read_loop E (Suc k) bus s' l' = (Some (bytes_read l'), s'', l'\<lparr>timeout := tv\<rparr>)"
    by simp
  with loop_head_read_loop [OF assms(5), of "Suc k"]
  have "read_loop E (Suc (n + k)) bus s (entry_locals bytes b timeout_ms) =
          (Some (bytes_read l'), s'', l'\<lparr>timeout := tv\<rparr>)"
    by simp
  with assms(1-4) have res: "uart_read_bytes E (Suc (n + k)) s bus bytes b timeout_ms =
           (Some (bytes_read l'), buf l', s'')"
    by (simp add: uart_read_bytes_loop)
  from sys_select_effect [OF assms(8)] obtain w where
    "s'' = issue (SysSelect (fd s' ! nat bus) (timeout l') w) s'" by blast
  moreover from loop_head_received [OF assms(5)] obtain ev where
    "trace s' = trace s @ ev" "bytes_read l' = received ev"
    by (auto simp: entry_locals_def)
  ultimately have "trace s'' = trace s @ (ev @ [SysSelect (fd s' ! nat bus) (timeout l') w])"
    and "received (ev @ [SysSelect (fd s' ! nat bus) (timeout l') w]) = bytes_read l'"
    by (simp_all add: issue_def received_append)
  then have "bytes_read l' = received (since s s'')"
    by (simp only: since_append)
  with res loop_head_entry [OF assms(5)] show ?thesis by simp
qed

theorem wait_timeout_returns_count_witness:
  "MIN_BUS \<le> 0 \<and> 0 \<le> MAX_BUS \<and> initialized world1 ! nat 0 \<noteq> 0 \<and> (1::int) \<le> 5 \<and>
   loop_head (env2 Quiet RUNNING) (Suc (Suc 0)) 0 world1 (entry_locals 5 [0, 0, 0, 0, 0] 1500) =
     Some (world3, locals3) \<and>
   0 < bytes_left locals3 \<and> get_state (env2 Quiet RUNNING) world3 \<noteq> EXITING \<and>
   sys_select (env2 Quiet RUNNING) world3 (fd world3 ! nat 0) (timeout locals3) =
     (0, None, \<lparr>tv_sec = 0, tv_usec = 0\<rparr>,
      issue (SysSelect 3 \<lparr>tv_sec = 0, tv_usec = 700000\<rparr> 700000) world3) \<and>
   uart_read_bytes (env2 Quiet RUNNING) (Suc (Suc (Suc 0) + 3)) world1 0 5 [0, 0, 0, 0, 0] 1500 =
     (Some 4, [7, 8, 7, 8, 0],
      issue (SysSelect 3 \<lparr>tv_sec = 0, tv_usec = 700000\<rparr> 700000) world3) \<and>
   loop_head env0 0 0 world1 (entry_locals 5 [0, 0, 0, 0, 0] 1500) =
     Some (world1, entry_locals 5 [0, 0, 0, 0, 0] 1500) \<and>
   0 < bytes_left (entry_locals 5 [0, 0, 0, 0, 0] 1500) \<and>
   get_state env0 world1 \<noteq> EXITING \<and>
   sys_select env0 world1 (fd world1 ! nat 0) (timeout (entry_locals 5 [0, 0, 0, 0, 0] 1500)) =
     (0, None, \<lparr>tv_sec = 0, tv_usec = 0\<rparr>,
      issue (SysSelect 3 \<lparr>tv_sec = 1, tv_usec = 500000\<rparr> 1500000) world1) \<and>
   uart_read_bytes env0 (Suc (0 + 3)) world1 0 5 [0, 0, 0, 0, 0] 1500 =
     (Some 0, [0, 0, 0, 0, 0],
      issue (SysSelect 3 \<lparr>tv_sec = 1, tv_usec = 500000\<rparr> 1500000) world1)"
proof -
  have z1: "loop_head env0 0 0 world1 (entry_locals 5 [0, 0, 0, 0, 0] 1500) =
     Some (world1, entry_locals 5 [0, 0, 0, 0, 0] 1500)"
    by simp
  have z2: "0 < bytes_left (entry_locals 5 [0, 0, 0, 0, 0] 1500)"
    by (simp add: entry_locals_def)
  have z3: "get_state env0 world1 \<noteq> EXITING"
    by (simp add: get_state_def env0_def)
  have z4: "sys_select env0 world1 (fd world1 ! nat 0)
      (timeout (entry_locals 5 [0, 0, 0, 0, 0] 1500)) =
     (0, None, \<lparr>tv_sec = 0, tv_usec = 0\<rparr>,
      issue (SysSelect 3 \<lparr>tv_sec = 1, tv_usec = 500000\<rparr> 1500000) world1)"
    by (simp add: sys_select_def world1_eq now_def issue_def entry_locals_def env0_def timeval_of_ms_def
        tv_valid_def budget_def timeval_of_us_def signed_divide_int_def signed_modulo_int_def)
  note z = example_valid(1-4) z1 z2 z3 z4
  from wait_timeout_returns_count [OF z, of 3]
  have z5: "uart_read_bytes env0 (Suc (0 + 3)) world1 0 5 [0, 0, 0, 0, 0] 1500 =
     (Some 0, [0, 0, 0, 0, 0],
      issue (SysSelect 3 \<lparr>tv_sec = 1, tv_usec = 500000\<rparr> 1500000) world1)"
    by (simp add: entry_locals_def)
  have run: "get_state (env2 Quiet RUNNING) world3 \<noteq> EXITING"
    by (simp add: example_running)
  have sel: "sys_select (env2 Quiet RUNNING) world3 (fd world3 ! nat 0) (timeout locals3) =
     (0, None, \<lparr>tv_sec = 0, tv_usec = 0\<rparr>,
      issue (SysSelect 3 \<lparr>tv_sec = 0, tv_usec = 700000\<rparr> 700000) world3)"
    by (simp only: example_world3(1) example_select(1))
  note h = example_valid(1-4) example_head [of Quiet RUNNING] example_valid(5) run sel
  from wait_timeout_returns_count [OF h, of 3]
  have "uart_read_bytes (env2 Quiet RUNNING) (Suc (Suc (Suc 0) + 3)) world1 0 5
          [0, 0, 0, 0, 0] 1500 =
     (Some 4, [7, 8, 7, 8, 0],
      issue (SysSelect 3 \<lparr>tv_sec = 0, tv_usec = 700000\<rparr> 700000) world3)"
    by (simp add: locals3_def)
  with h z z5 show ?thesis by blast
qed

text \<open>
  C2. When the loop is entered and \<open>select\<close> returns \<open>-1\<close>: with \<open>errno = EINTR\<close> the call
  returns at once the number of bytes read so far, a non-negative count; with any other
  \<open>errno\<close> it prints the error and returns \<open>-1\<close>, whatever was read before.
\<close>
theorem wait_failure_interrupted_or_error:
  assumes "MIN_BUS \<le> bus" and "bus \<le> MAX_BUS" and "initialized s ! nat bus \<noteq> 0"
    and "1 \<le> bytes"
    and "loop_head E n bus s (entry_locals bytes b timeout_ms) = Some (s', l')"
    and "0 < bytes_left l'" and "get_state E s' \<noteq> EXITING"
    and "sys_select E s' (fd s' ! nat bus) (timeout l') = (- 1, err, tv, s'')"
  shows "uart_read_bytes E (Suc (n + k)) s bus bytes b timeout_ms =
           (if err = Some EINTR then (Some (bytes_read l'), buf l', s'')
            else (Some (- 1), buf l', printf (MsgSelectError err) s'')) \<and>
         bytes_read l' = received (since s s'') \<and> 0 \<le> bytes_read l'"
proof -
  let ?res = "if err = Some EINTR then (Some (bytes_read l'), s'', l'\<lparr>timeout := tv\<rparr>)
              else (Some (- 1), printf (MsgSelectError err) s'', l'\<lparr>timeout := tv\<rparr>)"
  from assms(8) have body: "loop_body E bus s' l' = ?res"
    by (simp add: loop_body_def)
  with assms(6,7) have "read_loop E (Suc k) bus s' l' = ?res"
    by simp
  with loop_head_read_loop [OF assms(5), of "Suc k"]
  have "read_loop E (Suc (n + k)) bus s (entry_locals bytes b timeout_ms) = ?res"
    by simp
  with assms(1-4) have res: "uart_read_bytes E (Suc (n + k)) s bus bytes b timeout_ms =
           (if err = Some EINTR then (Some (bytes_read l'), buf l', s'')
            else (Some (- 1), buf l', printf (MsgSelectError err) s''))"
    by (simp add: uart_read_bytes_loop)
  from sys_select_effect [OF assms(8)] obtain w where
    "s'' = issue (SysSelect (fd s' ! nat bus) (timeout l') w) s'" by blast
  moreover from loop_head_received [OF assms(5)] obtain ev where
    "trace s' = trace s @ ev" "bytes_read l' = received ev"
    by (auto simp: entry_locals_def)
  ultimately have "trace s'' = trace s @ (ev @ [SysSelect (fd s' ! nat bus) (timeout l') w])"
    and "received (ev @ [SysSelect (fd s' ! nat bus) (timeout l') w]) = bytes_read l'"
    by (simp_all add: issue_def received_append)
  then have "bytes_read l' = received (since s s'')"
    by (simp only: since_append)
  with res loop_head_entry [OF assms(5)] show ?thesis by simp
qed

theorem wait_failure_interrupted_or_error_witness:
  "MIN_BUS \<le> 0 \<and> 0 \<le> MAX_BUS \<and> initialized world1 ! nat 0 \<noteq> 0 \<and> (1::int) \<le> 5 \<and>
   loop_head (env2 (Signal 100000) RUNNING) (Suc (Suc 0)) 0 world1
       (entry_locals 5 [0, 0, 0, 0, 0] 1500) = Some (world3, locals3) \<and>
   loop_head (env2 (Fail EIO) RUNNING) (Suc (Suc 0)) 0 world1
       (entry_locals 5 [0, 0, 0, 0, 0] 1500) = Some (world3, locals3) \<and>
   0 < bytes_left locals3 \<and>
   get_state (env2 (Signal 100000) RUNNING) world3 \<noteq> EXITING \<and>
   get_state (env2 (Fail EIO) RUNNING) world3 \<noteq> EXITING \<and>
   sys_select (env2 (Signal 100000) RUNNING) world3 (fd world3 ! nat 0) (timeout locals3) =
     (- 1, Some EINTR, \<lparr>tv_sec = 0, tv_usec = 600000\<rparr>,
      issue (SysSelect 3 \<lparr>tv_sec = 0, tv_usec = 700000\<rparr> 100000) world3) \<and>
   sys_select (env2 (Fail EIO) RUNNING) world3 (fd world3 ! nat 0) (timeout locals3) =
     (- 1, Some EIO, \<lparr>tv_sec = 0, tv_usec = 700000\<rparr>,
      issue (SysSelect 3 \<lparr>tv_sec = 0, tv_usec = 700000\<rparr> 0) world3) \<and>
   uart_read_bytes (env2 (Signal 100000) RUNNING) (Suc (Suc (Suc 0) + 3)) world1 0 5
       [0, 0, 0, 0, 0] 1500 =
     (Some 4, [7, 8, 7, 8, 0],
      issue (SysSelect 3 \<lparr>tv_sec = 0, tv_usec = 700000\<rparr> 100000) world3) \<and>
   uart_read_bytes (env2 (Fail EIO) RUNNING) (Suc (Suc (Suc 0) + 3)) world1 0 5
       [0, 0, 0, 0, 0] 1500 =
     (Some (- 1), [7, 8, 7, 8, 0],
      printf (MsgSelectError (Some EIO))
        (issue (SysSelect 3 \<lparr>tv_sec = 0, tv_usec = 700000\<rparr> 0) world3))"
proof -
  have run: "get_state (env2 (Signal 100000) RUNNING) world3 \<noteq> EXITING"
    "get_state (env2 (Fail EIO) RUNNING) world3 \<noteq> EXITING"
    by (simp_all add: example_running)
  have sel1: "sys_select (env2 (Signal 100000) RUNNING) world3 (fd world3 ! nat 0)
      (timeout locals3) =
     (- 1, Some EINTR, \<lparr>tv_sec = 0, tv_usec = 600000\<rparr>,
      issue (SysSelect 3 \<lparr>tv_sec = 0, tv_usec = 700000\<rparr> 100000) world3)"
    by (simp only: example_world3(1) example_select(2))
  have sel2: "sys_select (env2 (Fail EIO) RUNNING) world3 (fd world3 ! nat 0) (timeout locals3) =
     (- 1, Some EIO, \<lparr>tv_sec = 0, tv_usec = 700000\<rparr>,
      issue (SysSelect 3 \<lparr>tv_sec = 0, tv_usec = 700000\<rparr> 0) world3)"
    by (simp only: example_world3(1) example_select(3))
  note h1 = example_valid(1-4) example_head [of "Signal 100000" RUNNING] example_valid(5)
    run(1) sel1
  note h2 = example_valid(1-4) example_head [of "Fail EIO" RUNNING] example_valid(5)
    run(2) sel2
  from wait_failure_interrupted_or_error [OF h1, of 3]
  have r1: "uart_read_bytes (env2 (Signal 100000) RUNNING) (Suc (Suc (Suc 0) + 3)) world1 0 5
       [0, 0, 0, 0, 0] 1500 =
     (Some 4, [7, 8, 7, 8, 0],
      issue (SysSelect 3 \<lparr>tv_sec = 0, tv_usec = 700000\<rparr> 100000) world3)"
    by (simp add: locals3_def)
  from wait_failure_interrupted_or_error [OF h2, of 3]
  have r2: "uart_read_bytes (env2 (Fail EIO) RUNNING) (Suc (Suc (Suc 0) + 3)) world1 0 5
       [0, 0, 0, 0, 0] 1500 =
     (Some (- 1), [7, 8, 7, 8, 0],
      printf (MsgSelectError (Some EIO))
        (issue (SysSelect 3 \<lparr>tv_sec = 0, tv_usec = 700000\<rparr> 0) world3))"
    by (simp add: locals3_def)
  from h1 h2 r1 r2 show ?thesis by blast
qed

text \<open>
  C1. The waits of one call of \<open>uart_read_bytes\<close> draw on a single budget: the first
  \<open>select\<close> is handed the timeout computed from \<open>timeout_ms\<close>, every later one is handed
  what its predecessor left over, and the times waited add up to at most \<open>timeout_ms\<close>
  milliseconds (to nothing when \<open>timeout_ms\<close> is negative, which \<open>select\<close> refuses). This
  holds for every number of iterations, whether or not the call has returned by then.
\<close>
theorem timeout_is_a_depleting_budget:
  "depleting (timeval_of_ms timeout_ms)
     (waits (since s (snd (snd (uart_read_bytes E fuel s bus bytes b timeout_ms))))) \<and>
   int (sum_list (map snd
     (waits (since s (snd (snd (uart_read_bytes E fuel s bus bytes b timeout_ms))))))) \<le>
     max 0 (timeout_ms * 1000)"
proof -
  let ?s' = "snd (snd (uart_read_bytes E fuel s bus bytes b timeout_ms))"
  have dep: "depleting (timeval_of_ms timeout_ms) (waits (since s ?s'))"
  proof (cases "MIN_BUS \<le> bus \<and> bus \<le> MAX_BUS \<and> initialized s ! nat bus \<noteq> 0 \<and> 1 \<le> bytes")
    case False
    then have "trace ?s' = trace s"
      by (auto simp: uart_read_bytes_def printf_def)
    then show ?thesis by (simp add: since_def)
  next
    case True
    obtain r s' l' where loop:
      "read_loop E fuel bus s (entry_locals bytes b timeout_ms) = (r, s', l')"
      by (metis prod_cases3)
    with True have "?s' = s'" by (simp add: uart_read_bytes_loop)
    moreover from read_loop_depleting [OF loop] obtain ev where
      "trace s' = trace s @ ev" "depleting (timeval_of_ms timeout_ms) (waits ev)"
      by (auto simp: entry_locals_def)
    ultimately show ?thesis by (simp add: since_append)
  qed
  from depleting_sum [OF dep] have
    "int (sum_list (map snd (waits (since s ?s')))) \<le> int (budget (timeval_of_ms timeout_ms))"
    by simp
  with dep show ?thesis by (simp add: budget_timeval_of_ms)
qed

theorem timeout_is_a_depleting_budget_witness:
  "waits (since world1
      (snd (snd (uart_read_bytes (env2 Quiet RUNNING) 9 world1 0 5 [0, 0, 0, 0, 0] 1500)))) =
     [(\<lparr>tv_sec = 1, tv_usec = 500000\<rparr>, 400000), (\<lparr>tv_sec = 1, tv_usec = 100000\<rparr>, 400000),
      (\<lparr>tv_sec = 0, tv_usec = 700000\<rparr>, 700000)] \<and>
   depleting (timeval_of_ms 1500)
     [(\<lparr>tv_sec = 1, tv_usec = 500000\<rparr>, 400000), (\<lparr>tv_sec = 1, tv_usec = 100000\<rparr>, 400000),
      (\<lparr>tv_sec = 0, tv_usec = 700000\<rparr>, 700000)] \<and>
   int (400000 + 400000 + 700000) \<le> max 0 (1500 * 1000)"
proof -
  have w: "waits (since world1
      (snd (snd (uart_read_bytes (env2 Quiet RUNNING) 9 world1 0 5 [0, 0, 0, 0, 0] 1500)))) =
     [(\<lparr>tv_sec = 1, tv_usec = 500000\<rparr>, 400000), (\<lparr>tv_sec = 1, tv_usec = 100000\<rparr>, 400000),
      (\<lparr>tv_sec = 0, tv_usec = 700000\<rparr>, 700000)]"
    by (simp only: example_run) (simp add: world1_eq world2_def world3_def issue_def since_def)
  from timeout_is_a_depleting_budget [of 1500 world1 "env2 Quiet RUNNING" 9 0 5 "[0, 0, 0, 0, 0]"]
  show ?thesis unfolding w by simp
qed

section \<open>The slot invariant\<close>

text \<open>
  C5. The invariant "the handle is valid if and only if the slot is initialized" does not
  survive a failing \<open>tcsetattr\<close>. At process start the invariant holds for slot 0; a call
  \<open>initialize_uart(0, 9600)\<close> in which \<open>open\<close> succeeds with descriptor 3 and \<open>tcsetattr\<close>
  fails returns \<open>-1\<close> through line 139 with \<open>fd[0] = 3\<close> open and \<open>initialized[0] = 0\<close>.
  The descriptor is then out of reach: \<open>close_uart(0)\<close> is a no-op on the slot, and a
  later successful \<open>initialize_uart(0, 9600)\<close> overwrites \<open>fd[0]\<close> and leaves descriptor 3
  open beside the new one.
\<close>
theorem tcsetattr_failure_breaks_slot_invariant:
  "slot_inv world0 0 \<and>
   fst (initialize_uart env_attr_fails world0 0 9600) = - 1 \<and>
   fd world_leak ! 0 = 3 \<and> open_fds world_leak = {3} \<and> initialized world_leak ! 0 = 0 \<and>
   handle_valid world_leak 0 \<and> \<not> slot_inv world_leak 0 \<and>
   close_uart world_leak 0 = (0, world_leak) \<and>
   fst (initialize_uart (env0\<lparr>open_at := (\<lambda>_. 4)\<rparr>) world_leak 0 9600) = 0 \<and>
   fd (snd (initialize_uart (env0\<lparr>open_at := (\<lambda>_. 4)\<rparr>) world_leak 0 9600)) ! 0 = 4 \<and>
   open_fds (snd (initialize_uart (env0\<lparr>open_at := (\<lambda>_. 4)\<rparr>) world_leak 0 9600)) = {3, 4}"
proof -
  have leak: "initialize_uart env_attr_fails world0 0 9600 =
    (- 1, \<lparr>initialized = [0, 0, 0, 0, 0, 0], fd = [3, 0, 0, 0, 0, 0], open_fds = {3},
           trace =
             [SysOpen ''/dev/ttyO0'' 3,
              SysTcsetattr 3
                \<lparr>c_iflag = 0, c_oflag = 0, c_cflag = [CS8, CREAD, CLOCAL], c_lflag = 0,
                 c_cc_VTIME = 0, c_cc_VMIN = 1, c_ispeed = Some B9600,
                 c_ospeed = Some B9600\<rparr>],
           console = [MsgAttrFailed 0]\<rparr>)"
    by (simp add: initialize_uart_def MIN_BUS_def MAX_BUS_def speed_of_baudrate_def
        close_uart_def world0_def sys_open_def env0_def now_def issue_def cfsetispeed_def
        cfsetospeed_def sys_tcsetattr_def config0_def paths_def env_attr_fails_def printf_def)
  then have w: "world_leak =
     \<lparr>initialized = [0, 0, 0, 0, 0, 0], fd = [3, 0, 0, 0, 0, 0], open_fds = {3},
      trace =
        [SysOpen ''/dev/ttyO0'' 3,
         SysTcsetattr 3
           \<lparr>c_iflag = 0, c_oflag = 0, c_cflag = [CS8, CREAD, CLOCAL], c_lflag = 0,
            c_cc_VTIME = 0, c_cc_VMIN = 1, c_ispeed = Some B9600, c_ospeed = Some B9600\<rparr>],
      console = [MsgAttrFailed 0]\<rparr>"
    by (simp add: world_leak_def)
  have "slot_inv world0 0"
    by (simp add: slot_inv_def handle_valid_def world0_def)
  moreover from leak have "fst (initialize_uart env_attr_fails world0 0 9600) = - 1"
    by simp
  moreover have "fd world_leak ! 0 = 3" "open_fds world_leak = {3}"
    "initialized world_leak ! 0 = 0" "handle_valid world_leak 0" "\<not> slot_inv world_leak 0"
    by (simp_all add: w slot_inv_def handle_valid_def)
  moreover have "close_uart world_leak 0 = (0, world_leak)"
    by (simp add: w close_uart_def MIN_BUS_def MAX_BUS_def)
  moreover have "initialize_uart (env0\<lparr>open_at := (\<lambda>_. 4)\<rparr>) world_leak 0 9600 =
    (0, \<lparr>initialized = [1, 0, 0, 0, 0, 0], fd = [4, 0, 0, 0, 0, 0], open_fds = {3, 4},
          trace =
            [SysOpen ''/dev/ttyO0'' 3,
             SysTcsetattr 3
               \<lparr>c_iflag = 0, c_oflag = 0, c_cflag = [CS8, CREAD, CLOCAL], c_lflag = 0,
                c_cc_VTIME = 0, c_cc_VMIN = 1, c_ispeed = Some B9600,
                c_ospeed = Some B9600\<rparr>,
             SysOpen ''/dev/ttyO0'' 4,
             SysTcsetattr 4
               \<lparr>c_iflag = 0, c_oflag = 0, c_cflag = [CS8, CREAD, CLOCAL], c_lflag = 0,
                c_cc_VTIME = 0, c_cc_VMIN = 1, c_ispeed = Some B9600,
                c_ospeed = Some B9600\<rparr>,
             SysTcflush 4],
          console = [MsgAttrFailed 0]\<rparr>)"
    by (simp add: w initialize_uart_def MIN_BUS_def MAX_BUS_def speed_of_baudrate_def
        close_uart_def sys_open_def env0_def now_def issue_def cfsetispeed_def
        cfsetospeed_def sys_tcsetattr_def flush_uart_def sys_tcflush_def config0_def
        paths_def insert_commute)
  ultimately show ?thesis by simp
qed

end
